theory Spec2Isabelle
  imports Complex_Main "HOL-Library.Multiset" "HOL-Library.Sublist"
begin

text \<open>
  The affordability computation of \<open>map_app.js\<close>: the mortgage formula
  (\<open>_calculateMortgage\<close>), the recompute pass over the areas (\<open>_updateAllRatios\<close>,
  \<open>_calculateQuartilePayments\<close>) and the table of rows with its default order, its column
  sort and its filter (\<open>_prepareAndRenderTable\<close>, \<open>_sortColumn\<close>, \<open>_filterTable\<close>).
  The map, the popups and the painting of the table are left out; what the table code
  hands to \<open>_renderTable\<close> is kept as a field of the state.
\<close>

section \<open>JavaScript numbers\<close>

text \<open>
  A JavaScript number is modelled as an exact real extended by the two infinities and
  NaN. The operators below follow the language's rules for the special values
  (division by zero, \<open>Infinity - Infinity\<close>, comparisons with NaN, \<open>Math.pow\<close>).
  Rounding and overflow of binary64 arithmetic and the sign of zero are not modelled:
  a finite result is the exact real result, and a zero divisor counts as \<open>+0\<close>.
\<close>

datatype jsnum = Num real | PosInf | NegInf | NaN

fun js_neg :: "jsnum \<Rightarrow> jsnum" where
  "js_neg (Num a) = Num (- a)"
| "js_neg PosInf = NegInf"
| "js_neg NegInf = PosInf"
| "js_neg NaN = NaN"

fun js_add :: "jsnum \<Rightarrow> jsnum \<Rightarrow> jsnum" where
  "js_add NaN b = NaN"
| "js_add a NaN = NaN"
| "js_add (Num a) (Num b) = Num (a + b)"
| "js_add PosInf NegInf = NaN"
| "js_add NegInf PosInf = NaN"
| "js_add PosInf b = PosInf"
| "js_add a PosInf = PosInf"
| "js_add NegInf b = NegInf"
| "js_add a NegInf = NegInf"

definition js_sub :: "jsnum \<Rightarrow> jsnum \<Rightarrow> jsnum" where
  "js_sub a b = js_add a (js_neg b)"

text \<open>The product of an infinity with a finite number takes the sign of the product;
  \<open>Infinity * 0\<close> is NaN.\<close>

definition inf_times :: "bool \<Rightarrow> real \<Rightarrow> jsnum" where
  "inf_times positive b =
     (if b = 0 then NaN else if (0 < b) = positive then PosInf else NegInf)"

fun js_mul :: "jsnum \<Rightarrow> jsnum \<Rightarrow> jsnum" where
  "js_mul NaN b = NaN"
| "js_mul a NaN = NaN"
| "js_mul (Num a) (Num b) = Num (a * b)"
| "js_mul PosInf (Num b) = inf_times True b"
| "js_mul NegInf (Num b) = inf_times False b"
| "js_mul (Num a) PosInf = inf_times True a"
| "js_mul (Num a) NegInf = inf_times False a"
| "js_mul PosInf PosInf = PosInf"
| "js_mul NegInf NegInf = PosInf"
| "js_mul PosInf NegInf = NegInf"
| "js_mul NegInf PosInf = NegInf"

fun js_div :: "jsnum \<Rightarrow> jsnum \<Rightarrow> jsnum" where
  "js_div NaN b = NaN"
| "js_div a NaN = NaN"
| "js_div (Num a) (Num b) =
     (if b = 0 then (if a = 0 then NaN else if 0 < a then PosInf else NegInf)
      else Num (a / b))"
| "js_div (Num a) PosInf = Num 0"
| "js_div (Num a) NegInf = Num 0"
| "js_div PosInf (Num b) = (if b < 0 then NegInf else PosInf)"
| "js_div NegInf (Num b) = (if b < 0 then PosInf else NegInf)"
| "js_div a b = NaN"

text \<open>Comparisons: every comparison with NaN is false.\<close>

fun js_le :: "jsnum \<Rightarrow> jsnum \<Rightarrow> bool" where
  "js_le NaN b = False"
| "js_le a NaN = False"
| "js_le (Num a) (Num b) = (a \<le> b)"
| "js_le NegInf b = True"
| "js_le a PosInf = True"
| "js_le a b = False"

fun js_lt :: "jsnum \<Rightarrow> jsnum \<Rightarrow> bool" where
  "js_lt NaN b = False"
| "js_lt a NaN = False"
| "js_lt (Num a) (Num b) = (a < b)"
| "js_lt PosInf b = False"
| "js_lt a NegInf = False"
| "js_lt a b = True"

text \<open>\<open>Math.max(a, b)\<close>: NaN if either argument is NaN.\<close>

fun js_max :: "jsnum \<Rightarrow> jsnum \<Rightarrow> jsnum" where
  "js_max NaN b = NaN"
| "js_max a NaN = NaN"
| "js_max a b = (if js_lt a b then b else a)"

text \<open>Truthiness of a number: everything but zero and NaN.\<close>

fun js_truthy :: "jsnum \<Rightarrow> bool" where
  "js_truthy NaN = False"
| "js_truthy (Num a) = (a \<noteq> 0)"
| "js_truthy a = True"

definition is_integer :: "real \<Rightarrow> bool" where
  "is_integer e = (e = of_int \<lfloor>e\<rfloor>)"

definition odd_integer :: "real \<Rightarrow> bool" where
  "odd_integer e = (is_integer e \<and> odd \<lfloor>e\<rfloor>)"

text \<open>\<open>Math.pow(base, exponent)\<close>, case by case as the language defines it.\<close>

fun js_pow :: "jsnum \<Rightarrow> jsnum \<Rightarrow> jsnum" where
  "js_pow b NaN = NaN"
| "js_pow b (Num e) =
     (if e = 0 then Num 1
      else case b of
        NaN \<Rightarrow> NaN
      | PosInf \<Rightarrow> (if 0 < e then PosInf else Num 0)
      | NegInf \<Rightarrow> (if 0 < e then (if odd_integer e then NegInf else PosInf) else Num 0)
      | Num x \<Rightarrow>
          (if x = 0 then (if 0 < e then Num 0 else PosInf)
           else if 0 < x then Num (x powr e)
           else if \<not> is_integer e then NaN
           else if odd_integer e then Num (- (\<bar>x\<bar> powr e))
           else Num (\<bar>x\<bar> powr e)))"
| "js_pow b PosInf =
     (case b of
        NaN \<Rightarrow> NaN
      | Num x \<Rightarrow> (if 1 < \<bar>x\<bar> then PosInf else if \<bar>x\<bar> = 1 then NaN else Num 0)
      | _ \<Rightarrow> PosInf)"
| "js_pow b NegInf =
     (case b of
        NaN \<Rightarrow> NaN
      | Num x \<Rightarrow> (if 1 < \<bar>x\<bar> then Num 0 else if \<bar>x\<bar> = 1 then NaN else PosInf)
      | _ \<Rightarrow> Num 0)"


section \<open>The mortgage model\<close>

record mortgage =
  payment :: jsnum
  interest :: jsnum

text \<open>\<open>_calculateMortgage(loanAmount, annualRate, termYears, type)\<close>.\<close>

definition calculateMortgage :: "jsnum \<Rightarrow> jsnum \<Rightarrow> jsnum \<Rightarrow> string \<Rightarrow> mortgage" where
  "calculateMortgage loanAmount annualRate termYears type =
     (if js_le loanAmount (Num 0) then \<lparr>payment = Num 0, interest = Num 0\<rparr>
      else
        let numPayments = js_mul termYears (Num 12) in
        if annualRate = Num 0
        then \<lparr>payment = js_div loanAmount numPayments, interest = Num 0\<rparr>
        else
          let monthlyRate = js_div (js_div annualRate (Num 100)) (Num 12);
              monthlyInterest = js_mul loanAmount monthlyRate
          in
          if type = ''IO''
          then \<lparr>payment = monthlyInterest, interest = monthlyInterest\<rparr>
          else
            let factor = js_pow (js_add (Num 1) monthlyRate) numPayments;
                principalAndInterestPayment =
                  js_div (js_mul monthlyInterest factor) (js_sub factor (Num 1))
            in \<lparr>payment = principalAndInterestPayment, interest = monthlyInterest\<rparr>)"

text \<open>The conversion \<open>x * 12 / 52\<close> from a monthly to a weekly amount.\<close>

definition toWeekly :: "jsnum \<Rightarrow> jsnum" where
  "toWeekly x = js_div (js_mul x (Num 12)) (Num 52)"


section \<open>Area records and the recompute pass\<close>

text \<open>
  A numeric property of an object is unset (\<open>undefined\<close>), \<open>null\<close> or a number.
  The raw columns of a record come from the parsed data file: a number, or nothing
  (\<open>None\<close>: the property is \<open>null\<close> or missing). The postal code of a record is
  a string: the table code calls its method \<open>includes\<close> and compares it to a string
  with \<open>===\<close>.
\<close>

datatype numval = Undefined | Null | Number jsnum

record area =
  Postcode :: string
  yearly_median_sales_price_000s :: "real option"
  yearly_median_weekly_rent :: "real option"
  yearly_first_quartile_sales_000s :: "real option"
  yearly_third_quartile_sales_000s :: "real option"
  calculated_weekly_payment :: numval
  calculated_weekly_interest :: numval
  rent_vs_payment_ratio :: numval
  yearly_first_quartile_weekly_payment :: numval
  yearly_third_quartile_weekly_payment :: numval

text \<open>The values \<open>_updateAllRatios\<close> reads from the controls and from the object
  (\<open>this.depositType\<close>, \<open>this.mortgageType\<close>).\<close>

record config =
  interestRate :: jsnum
  loanTerm :: jsnum
  depositPercent :: jsnum
  depositAmount :: jsnum
  depositType :: string
  mortgageType :: string

text \<open>\<open>x || 0\<close> on a raw column.\<close>

definition or_zero :: "real option \<Rightarrow> real" where
  "or_zero x = (case x of None \<Rightarrow> 0 | Some v \<Rightarrow> v)"

text \<open>\<open>!x\<close> on a raw column: absent or zero.\<close>

definition falsy :: "real option \<Rightarrow> bool" where
  "falsy x = (case x of None \<Rightarrow> True | Some v \<Rightarrow> v = 0)"

text \<open>\<open>_calculateQuartilePayments(data, deposit, rate, term, type)\<close>; the record is
  returned updated.\<close>

definition calculateQuartilePayments ::
  "area \<Rightarrow> jsnum \<Rightarrow> jsnum \<Rightarrow> jsnum \<Rightarrow> string \<Rightarrow> area" where
  "calculateQuartilePayments data deposit rate term type =
     (let q1Sales = js_mul (Num (or_zero (yearly_first_quartile_sales_000s data))) (Num 1000);
          data1 =
            (if js_truthy q1Sales then
               let q1Loan = js_max (Num 0) (js_sub q1Sales deposit);
                   q1Mortgage = calculateMortgage q1Loan rate term type
               in data\<lparr>yearly_first_quartile_weekly_payment :=
                          Number (toWeekly (payment q1Mortgage))\<rparr>
             else data\<lparr>yearly_first_quartile_weekly_payment := Null\<rparr>);
          q3Sales = js_mul (Num (or_zero (yearly_third_quartile_sales_000s data1))) (Num 1000)
      in
        if js_truthy q3Sales then
          let data2 = data1\<lparr>yearly_third_quartile_weekly_payment := Null\<rparr>;
              q3Loan = js_max (Num 0) (js_sub q3Sales deposit);
              q3Mortgage = calculateMortgage q3Loan rate term type
          in data2\<lparr>yearly_third_quartile_weekly_payment :=
                      Number (toWeekly (payment q3Mortgage))\<rparr>
        else data1)"

text \<open>The deposit of \<open>_updateAllRatios\<close>: a share of the sale price when the deposit
  type is \<open>percent\<close>, the amount entered otherwise.\<close>

definition actualDeposit :: "config \<Rightarrow> jsnum \<Rightarrow> jsnum" where
  "actualDeposit cfg salesPrice =
     (if depositType cfg = ''percent''
      then js_mul salesPrice (js_div (depositPercent cfg) (Num 100))
      else depositAmount cfg)"

text \<open>The ratio written by \<open>_updateAllRatios\<close>, from the rent and the weekly payment
  just computed.\<close>

definition rentRatio :: "real option \<Rightarrow> jsnum \<Rightarrow> numval" where
  "rentRatio rent weekly =
     (case rent of
        None \<Rightarrow> Null
      | Some v \<Rightarrow>
          if v = 0 then Null
          else if js_lt (Num 0) weekly then Number (js_div (Num v) weekly)
          else Number PosInf)"

text \<open>The body of the loop of \<open>_updateAllRatios\<close>, for one record.\<close>

definition updateArea :: "config \<Rightarrow> area \<Rightarrow> area" where
  "updateArea cfg data =
     (let salesPrice = js_mul (Num (or_zero (yearly_median_sales_price_000s data))) (Num 1000);
          rent = yearly_median_weekly_rent data
      in
        if js_truthy salesPrice then
          let deposit = actualDeposit cfg salesPrice;
              loanAmount = js_max (Num 0) (js_sub salesPrice deposit);
              mortgage = calculateMortgage loanAmount (interestRate cfg) (loanTerm cfg)
                           (mortgageType cfg);
              data1 = data\<lparr>calculated_weekly_payment := Number (toWeekly (payment mortgage)),
                            calculated_weekly_interest := Number (toWeekly (interest mortgage))\<rparr>;
              data2 = data1\<lparr>rent_vs_payment_ratio := rentRatio rent (toWeekly (payment mortgage))\<rparr>
          in calculateQuartilePayments data2 deposit (interestRate cfg) (loanTerm cfg)
               (mortgageType cfg)
        else data)"

text \<open>\<open>this.housingData\<close> is the list of its records in the order in which the
  object enumerates them; the loop visits each record once.\<close>

definition updateAllRatios :: "config \<Rightarrow> area list \<Rightarrow> area list" where
  "updateAllRatios cfg housingData = map (updateArea cfg) housingData"


section \<open>The table: projection, ordering, filtering\<close>

record row =
  postcode :: string
  suburb :: string
  ratio :: numval
  rent :: numval
  mortgage_payment :: numval

text \<open>
  \<open>Array.prototype.sort\<close> with a comparator: a stable sort, modelled by stable
  insertion. An element moves behind another one exactly when the comparator returns a
  number greater than zero; NaN counts as zero, as the language prescribes.
\<close>

fun js_insert :: "('a \<Rightarrow> 'a \<Rightarrow> jsnum) \<Rightarrow> 'a \<Rightarrow> 'a list \<Rightarrow> 'a list" where
  "js_insert cmp x [] = [x]"
| "js_insert cmp x (y # ys) =
     (if js_lt (Num 0) (cmp x y) then y # js_insert cmp x ys else x # y # ys)"

definition js_sort :: "('a \<Rightarrow> 'a \<Rightarrow> jsnum) \<Rightarrow> 'a list \<Rightarrow> 'a list" where
  "js_sort cmp xs = foldr (js_insert cmp) xs []"

record app =
  housingData :: "area list"
  suburbLookup :: "string \<rightharpoonup> string"
  sortedDataList :: "row list"
  tableBody :: "row list"
  headerClasses :: "string \<rightharpoonup> bool \<times> bool"

text \<open>
  \<open>tableBody\<close> is the list of rows last handed to \<open>_renderTable\<close>.
  \<open>headerClasses\<close> maps the \<open>data-sort\<close> key of each column header of the page to
  whether the header carries the classes \<open>sorted-asc\<close> and \<open>sorted-desc\<close>.
\<close>

text \<open>\<open>this.suburbLookup[p]\<close> when it is truthy (a non-empty string).\<close>

definition lookupSuburb :: "(string \<rightharpoonup> string) \<Rightarrow> string \<Rightarrow> string option" where
  "lookupSuburb lookup p =
     (case lookup p of None \<Rightarrow> None | Some s \<Rightarrow> if s = [] then None else Some s)"

definition rawValue :: "real option \<Rightarrow> numval" where
  "rawValue x = (case x of None \<Rightarrow> Null | Some v \<Rightarrow> Number (Num v))"

definition inTable :: "(string \<rightharpoonup> string) \<Rightarrow> area \<Rightarrow> bool" where
  "inTable lookup d =
     (lookupSuburb lookup (Postcode d) \<noteq> None
      \<or> \<not> falsy (yearly_median_weekly_rent d)
      \<or> \<not> falsy (yearly_median_sales_price_000s d))"

definition toRow :: "(string \<rightharpoonup> string) \<Rightarrow> area \<Rightarrow> row" where
  "toRow lookup d =
     \<lparr>postcode = Postcode d,
      suburb = (case lookupSuburb lookup (Postcode d) of
                  Some s \<Rightarrow> s
                | None \<Rightarrow> ''Postcode '' @ Postcode d),
      ratio = rent_vs_payment_ratio d,
      rent = rawValue (yearly_median_weekly_rent d),
      mortgage_payment = calculated_weekly_payment d\<rparr>"

text \<open>\<open>x ?? -1\<close> on a ratio.\<close>

definition orMinusOne :: "numval \<Rightarrow> jsnum" where
  "orMinusOne v = (case v of Number n \<Rightarrow> n | _ \<Rightarrow> Num (- 1))"

definition ratioCompare :: "row \<Rightarrow> row \<Rightarrow> jsnum" where
  "ratioCompare a b = js_sub (orMinusOne (ratio b)) (orMinusOne (ratio a))"

definition prepareAndRenderTable :: "app \<Rightarrow> app" where
  "prepareAndRenderTable st =
     (let rows = map (toRow (suburbLookup st)) (filter (inTable (suburbLookup st)) (housingData st));
          sorted = js_sort ratioCompare rows
      in st\<lparr>sortedDataList := sorted,
             tableBody := sorted,
             headerClasses :=
               (case headerClasses st ''ratio'' of
                  None \<Rightarrow> headerClasses st
                | Some (asc, desc) \<Rightarrow> (headerClasses st)(''ratio'' \<mapsto> (asc, True)))\<rparr>)"

text \<open>\<open>updateMapAndTable\<close>, without the map layer.\<close>

definition updateMapAndTable :: "config \<Rightarrow> app \<Rightarrow> app" where
  "updateMapAndTable cfg st =
     prepareAndRenderTable (st\<lparr>housingData := updateAllRatios cfg (housingData st)\<rparr>)"

subsection \<open>Sorting by a column\<close>








subsection \<open>Filtering\<close>








section \<open>Statements of the specification, and examples\<close>

text \<open>The loan configuration as the specification's data model describes it: a
  non-negative rate, a positive term, a deposit share between 0 and 100 and a
  non-negative deposit amount, all finite.\<close>

definition spec_LoanConfiguration :: "config \<Rightarrow> bool" where
  "spec_LoanConfiguration cfg =
     (case (interestRate cfg, loanTerm cfg, depositPercent cfg, depositAmount cfg) of
        (Num r, Num t, Num p, Num a) \<Rightarrow> 0 \<le> r \<and> 0 < t \<and> 0 \<le> p \<and> p \<le> 100 \<and> 0 \<le> a
      | _ \<Rightarrow> False)"


text \<open>A quartile payment as claim C1 words it: the deposit and the loan amount are derived
  from the quartile sale price itself, and the payment is undefined when the quartile
  sale price is absent or zero.\<close>

definition spec_quartile_payment :: "config \<Rightarrow> real option \<Rightarrow> numval" where
  "spec_quartile_payment cfg quartile =
     (case quartile of
        None \<Rightarrow> Null
      | Some q \<Rightarrow>
          if q = 0 then Null
          else
            let salePrice = Num (q * 1000);
                deposit = (if depositType cfg = ''percent''
                           then js_mul salePrice (js_div (depositPercent cfg) (Num 100))
                           else depositAmount cfg);
                loanAmount = js_max (Num 0) (js_sub salePrice deposit)
            in Number (toWeekly (payment (calculateMortgage loanAmount (interestRate cfg)
                         (loanTerm cfg) (mortgageType cfg)))))"


text \<open>The example of the specification: a sale price of 800 thousand, a rent of 500, a
  deposit of 20 percent, 5 percent interest only over 25 years; with quartile sale prices
  of 600 and 1000 thousand.\<close>

definition example_config :: config where
  "example_config =
     \<lparr>interestRate = Num 5, loanTerm = Num 25, depositPercent = Num 20,
      depositAmount = Num 100000, depositType = ''percent'', mortgageType = ''IO''\<rparr>"

definition example_area :: area where
  "example_area =
     \<lparr>Postcode = ''2000'',
      yearly_median_sales_price_000s = Some 800,
      yearly_median_weekly_rent = Some 500,
      yearly_first_quartile_sales_000s = Some 600,
      yearly_third_quartile_sales_000s = Some 1000,
      calculated_weekly_payment = Undefined,
      calculated_weekly_interest = Undefined,
      rent_vs_payment_ratio = Undefined,
      yearly_first_quartile_weekly_payment = Undefined,
      yearly_third_quartile_weekly_payment = Undefined\<rparr>"


definition example_area_stale :: area where
  "example_area_stale =
     example_area\<lparr>calculated_weekly_payment := Number (Num 1),
                   calculated_weekly_interest := Number (Num 2),
                   rent_vs_payment_ratio := Number PosInf,
                   yearly_first_quartile_weekly_payment := Number (Num 3),
                   yearly_third_quartile_weekly_payment := Number (Num 4)\<rparr>"






text \<open>A state of the page with five areas, and a table of three rows.\<close>

definition example_lookup :: "string \<rightharpoonup> string" where
  "example_lookup = [''2000'' \<mapsto> ''Sydney'', ''2010'' \<mapsto> ''Surry Hills, Darlinghurst'']"

definition example_headers :: "string \<rightharpoonup> bool \<times> bool" where
  "example_headers =
     [''suburb'' \<mapsto> (False, False), ''postcode'' \<mapsto> (False, False),
      ''ratio'' \<mapsto> (False, False), ''rent'' \<mapsto> (False, False),
      ''mortgage_payment'' \<mapsto> (False, False)]"

definition example_app :: app where
  "example_app =
     \<lparr>housingData =
        [example_area\<lparr>rent_vs_payment_ratio := Number (Num 0.5)\<rparr>,
         example_area\<lparr>Postcode := ''2010'', rent_vs_payment_ratio := Null\<rparr>,
         example_area\<lparr>Postcode := ''2020'', rent_vs_payment_ratio := Number PosInf\<rparr>,
         example_area\<lparr>Postcode := ''2030''\<rparr>,
         example_area\<lparr>Postcode := ''2040'', rent_vs_payment_ratio := Number PosInf\<rparr>],
      suburbLookup = example_lookup,
      sortedDataList = [],
      tableBody = [],
      headerClasses = example_headers\<rparr>"






section \<open>Properties of the mortgage model\<close>

text \<open>On finite inputs away from the special cases, the principal-and-interest branch
  computes the amortisation formula over the reals.\<close>

lemma principal_and_interest_finite:
  assumes "0 < L" "r \<noteq> 0" "0 < 1 + r / 100 / 12" "t * 12 \<noteq> 0"
    and "(1 + r / 100 / 12) powr (t * 12) \<noteq> 1" "type \<noteq> ''IO''"
  shows "calculateMortgage (Num L) (Num r) (Num t) type =
     \<lparr>payment = Num (L * (r / 100 / 12) * (1 + r / 100 / 12) powr (t * 12)
                      / ((1 + r / 100 / 12) powr (t * 12) - 1)),
      interest = Num (L * (r / 100 / 12))\<rparr>"
  using assms by (simp add: calculateMortgage_def js_sub_def Let_def)

text \<open>
  Claim C10. For every loan amount that is less than or equal to zero (negative amounts
  and minus infinity included), \<open>_calculateMortgage\<close> returns payment 0 and interest
  0, whatever the rate, the term and the repayment type are (also NaN, zero or
  infinite ones): the result does not depend on the division by the number of payments
  or on the amortisation formula. The function is total.
\<close>

theorem zero_payment_for_nonpositive_loan:
  "js_le loanAmount (Num 0) \<Longrightarrow>
   calculateMortgage loanAmount annualRate termYears type = \<lparr>payment = Num 0, interest = Num 0\<rparr>"
  by (simp add: calculateMortgage_def)

theorem zero_payment_for_nonpositive_loan_witness:
  "js_le (Num (- 5)) (Num 0) \<and>
   calculateMortgage (Num (- 5)) (Num 6) (Num 0) ''PI'' = \<lparr>payment = Num 0, interest = Num 0\<rparr>"
  using zero_payment_for_nonpositive_loan [of "Num (- 5)" "Num 6" "Num 0" "''PI''"] by simp



subsection \<open>The worked example: 500000 at 6 percent over 30 years\<close>

text \<open>Bounds for \<open>1.005 ^ 360\<close>, by interval arithmetic along
  \<open>360 = 5 * 3 * 3 * 2 * 2 * 2\<close>.\<close>

lemma compound_factor_360:
  fixes x :: real
  assumes x: "x = 201 / 200"
  shows "6.0225752122 < x ^ 360 \<and> x ^ 360 < 6.0225752123"
proof -
  have pos: "0 \<le> x" using x by simp
  have b5: "102525125312812 / 100000000000000 \<le> x ^ 5 \<and> x ^ 5 \<le> 102525125312813 / 100000000000000"
    unfolding x by (simp add: power_divide)
  have e15: "x ^ 15 = (x ^ 5) ^ 3"
    by (simp add: power_mult [symmetric])
  have "(102525125312812 / 100000000000000 :: real) ^ 3 \<le> (x ^ 5) ^ 3"
    using b5 by (intro power_mono) simp_all
  moreover have "(x ^ 5) ^ 3 \<le> (102525125312813 / 100000000000000 :: real) ^ 3"
    using b5 pos by (intro power_mono) simp_all
  moreover have "(107768273758806 / 100000000000000 :: real) \<le> (102525125312812 / 100000000000000) ^ 3"
    by (simp add: power_divide)
  moreover have "(102525125312813 / 100000000000000 :: real) ^ 3 \<le> 107768273758810 / 100000000000000"
    by (simp add: power_divide)
  ultimately have b15: "107768273758806 / 100000000000000 \<le> x ^ 15 \<and> x ^ 15 \<le> 107768273758810 / 100000000000000"
    unfolding e15 by linarith
  have e45: "x ^ 45 = (x ^ 15) ^ 3"
    by (simp add: power_mult [symmetric])
  have "(107768273758806 / 100000000000000 :: real) ^ 3 \<le> (x ^ 15) ^ 3"
    using b15 by (intro power_mono) simp_all
  moreover have "(x ^ 15) ^ 3 \<le> (107768273758810 / 100000000000000 :: real) ^ 3"
    using b15 pos by (intro power_mono) simp_all
  moreover have "(125162082076960 / 100000000000000 :: real) \<le> (107768273758806 / 100000000000000) ^ 3"
    by (simp add: power_divide)
  moreover have "(107768273758810 / 100000000000000 :: real) ^ 3 \<le> 125162082076975 / 100000000000000"
    by (simp add: power_divide)
  ultimately have b45: "125162082076960 / 100000000000000 \<le> x ^ 45 \<and> x ^ 45 \<le> 125162082076975 / 100000000000000"
    unfolding e45 by linarith
  have e90: "x ^ 90 = (x ^ 45) ^ 2"
    by (simp add: power_mult [symmetric])
  have "(125162082076960 / 100000000000000 :: real) ^ 2 \<le> (x ^ 45) ^ 2"
    using b45 by (intro power_mono) simp_all
  moreover have "(x ^ 45) ^ 2 \<le> (125162082076975 / 100000000000000 :: real) ^ 2"
    using b45 pos by (intro power_mono) simp_all
  moreover have "(156655467898396 / 100000000000000 :: real) \<le> (125162082076960 / 100000000000000) ^ 2"
    by (simp add: power_divide)
  moreover have "(125162082076975 / 100000000000000 :: real) ^ 2 \<le> 156655467898435 / 100000000000000"
    by (simp add: power_divide)
  ultimately have b90: "156655467898396 / 100000000000000 \<le> x ^ 90 \<and> x ^ 90 \<le> 156655467898435 / 100000000000000"
    unfolding e90 by linarith
  have e180: "x ^ 180 = (x ^ 90) ^ 2"
    by (simp add: power_mult [symmetric])
  have "(156655467898396 / 100000000000000 :: real) ^ 2 \<le> (x ^ 90) ^ 2"
    using b90 by (intro power_mono) simp_all
  moreover have "(x ^ 90) ^ 2 \<le> (156655467898435 / 100000000000000 :: real) ^ 2"
    using b90 pos by (intro power_mono) simp_all
  moreover have "(245409356224653 / 100000000000000 :: real) \<le> (156655467898396 / 100000000000000) ^ 2"
    by (simp add: power_divide)
  moreover have "(156655467898435 / 100000000000000 :: real) ^ 2 \<le> 245409356224776 / 100000000000000"
    by (simp add: power_divide)
  ultimately have b180: "245409356224653 / 100000000000000 \<le> x ^ 180 \<and> x ^ 180 \<le> 245409356224776 / 100000000000000"
    unfolding e180 by linarith
  have e360: "x ^ 360 = (x ^ 180) ^ 2"
    by (simp add: power_mult [symmetric])
  have "(245409356224653 / 100000000000000 :: real) ^ 2 \<le> (x ^ 180) ^ 2"
    using b180 by (intro power_mono) simp_all
  moreover have "(x ^ 180) ^ 2 \<le> (245409356224776 / 100000000000000 :: real) ^ 2"
    using b180 pos by (intro power_mono) simp_all
  moreover have "(602257521225986 / 100000000000000 :: real) \<le> (245409356224653 / 100000000000000) ^ 2"
    by (simp add: power_divide)
  moreover have "(245409356224776 / 100000000000000 :: real) ^ 2 \<le> 602257521226591 / 100000000000000"
    by (simp add: power_divide)
  ultimately have b360: "602257521225986 / 100000000000000 \<le> x ^ 360 \<and> x ^ 360 \<le> 602257521226591 / 100000000000000"
    unfolding e360 by linarith
  show ?thesis using b360 by simp
qed

lemma example_mortgage:
  "\<exists>f. 6.0225752122 < f \<and> f < 6.0225752123 \<and>
       calculateMortgage (Num 500000) (Num 6) (Num 30) ''PI'' =
         \<lparr>payment = Num (2500 * f / (f - 1)), interest = Num 2500\<rparr>"
proof -
  define x :: real where "x = 201 / 200"
  have b: "6.0225752122 < x ^ 360 \<and> x ^ 360 < 6.0225752123"
    using x_def by (rule compound_factor_360)
  have p: "(1 + 6 / 100 / 12 :: real) powr (30 * 12) = x ^ 360"
    unfolding x_def by simp
  have "calculateMortgage (Num 500000) (Num 6) (Num 30) ''PI'' =
     \<lparr>payment = Num (500000 * (6 / 100 / 12) * (1 + 6 / 100 / 12) powr (30 * 12)
                      / ((1 + 6 / 100 / 12) powr (30 * 12) - 1)),
      interest = Num (500000 * (6 / 100 / 12))\<rparr>"
  proof (rule principal_and_interest_finite)
    show "(1 + 6 / 100 / 12 :: real) powr (30 * 12) \<noteq> 1" unfolding p using b by simp
  qed simp_all
  then have "calculateMortgage (Num 500000) (Num 6) (Num 30) ''PI'' =
     \<lparr>payment = Num (2500 * x ^ 360 / (x ^ 360 - 1)), interest = Num 2500\<rparr>"
    unfolding p by simp
  with b show ?thesis by blast
qed

lemma example_payment_bounds:
  fixes f :: real
  assumes "6.0225752122 < f" "f < 6.0225752123"
  shows "2997.7526 < 2500 * f / (f - 1) \<and> 2500 * f / (f - 1) < 2997.7527"
proof -
  have pos: "0 < f - 1" using assms by simp
  have "2997.7526 * (f - 1) < 2500 * f" using assms by simp
  then have lo: "2997.7526 < 2500 * f / (f - 1)" using pos by (simp only: pos_less_divide_eq)
  have "2500 * f < 2997.7527 * (f - 1)" using assms by simp
  then have hi: "2500 * f / (f - 1) < 2997.7527" using pos by (simp only: pos_divide_less_eq)
  from lo hi show ?thesis by simp
qed

text \<open>
  Claim C4, as the code computes it. For loan amount 500000, annual rate 6, term 30 and
  principal and interest: the monthly rate is 0.005, the interest component is 2500, the
  monthly payment lies between 2997.75 and 2997.76, and the weekly payment
  \<open>payment * 12 / 52\<close> lies between 691.78 and 691.79.
\<close>

theorem example_500000_6_30:
  "js_div (js_div (Num 6) (Num 100)) (Num 12) = Num 0.005
   \<and> interest (calculateMortgage (Num 500000) (Num 6) (Num 30) ''PI'') = Num (500000 * 0.005)
   \<and> js_lt (Num 2997.75) (payment (calculateMortgage (Num 500000) (Num 6) (Num 30) ''PI''))
   \<and> js_lt (payment (calculateMortgage (Num 500000) (Num 6) (Num 30) ''PI'')) (Num 2997.76)
   \<and> js_lt (Num 691.78)
        (toWeekly (payment (calculateMortgage (Num 500000) (Num 6) (Num 30) ''PI'')))
   \<and> js_lt (toWeekly (payment (calculateMortgage (Num 500000) (Num 6) (Num 30) ''PI'')))
        (Num 691.79)"
proof -
  obtain f :: real where f: "6.0225752122 < f" "f < 6.0225752123"
    and m: "calculateMortgage (Num 500000) (Num 6) (Num 30) ''PI'' =
         \<lparr>payment = Num (2500 * f / (f - 1)), interest = Num 2500\<rparr>"
    using example_mortgage by blast
  define p where "p = 2500 * f / (f - 1)"
  have "2997.7526 < p \<and> p < 2997.7527"
    unfolding p_def using f by (rule example_payment_bounds)
  then show ?thesis
    unfolding m p_def [symmetric] by (simp add: toWeekly_def)
qed

text \<open>
  Claim C4, as stated, gives 691.02 for the weekly payment. The weekly payment of the
  code exceeds 691.02 by more than 0.75.
\<close>

theorem example_weekly_is_not_691_02:
  "js_lt (Num (691.02 + 0.75))
     (toWeekly (payment (calculateMortgage (Num 500000) (Num 6) (Num 30) ''PI'')))"
proof -
  obtain f :: real where f: "6.0225752122 < f" "f < 6.0225752123"
    and m: "calculateMortgage (Num 500000) (Num 6) (Num 30) ''PI'' =
         \<lparr>payment = Num (2500 * f / (f - 1)), interest = Num 2500\<rparr>"
    using example_mortgage by blast
  define p where "p = 2500 * f / (f - 1)"
  have "2997.7526 < p \<and> p < 2997.7527"
    unfolding p_def using f by (rule example_payment_bounds)
  then show ?thesis
    unfolding m p_def [symmetric] by (simp add: toWeekly_def)
qed


section \<open>Properties of the recompute pass\<close>

lemmas example_defs = example_config_def example_area_def

lemmas run_defs = updateArea_def calculateQuartilePayments_def calculateMortgage_def
  actualDeposit_def toWeekly_def rentRatio_def js_sub_def or_zero_def Let_def

lemma or_zero_eq_0: "(or_zero x = 0) = falsy x"
  by (simp add: or_zero_def falsy_def split: option.splits)

lemma updateArea_skip: "falsy (yearly_median_sales_price_000s d) \<Longrightarrow> updateArea cfg d = d"
  by (simp add: updateArea_def or_zero_eq_0 Let_def)

lemma updateArea_idem: "updateArea cfg (updateArea cfg d) = updateArea cfg d"
  by (simp add: updateArea_def calculateQuartilePayments_def or_zero_eq_0 Let_def)

lemma quartiles_keep_median_fields:
  "calculated_weekly_payment (calculateQuartilePayments d dep r t ty) = calculated_weekly_payment d"
  "calculated_weekly_interest (calculateQuartilePayments d dep r t ty) = calculated_weekly_interest d"
  "rent_vs_payment_ratio (calculateQuartilePayments d dep r t ty) = rent_vs_payment_ratio d"
  by (simp_all add: calculateQuartilePayments_def Let_def)

lemma quartiles_first:
  "yearly_first_quartile_weekly_payment (calculateQuartilePayments d dep r t ty) =
     (if falsy (yearly_first_quartile_sales_000s d) then Null
      else Number (toWeekly (payment (calculateMortgage
             (js_max (Num 0) (js_sub (Num (or_zero (yearly_first_quartile_sales_000s d) * 1000)) dep))
             r t ty))))"
  by (simp add: calculateQuartilePayments_def or_zero_eq_0 Let_def)

lemma quartiles_third:
  "yearly_third_quartile_weekly_payment (calculateQuartilePayments d dep r t ty) =
     (if falsy (yearly_third_quartile_sales_000s d) then yearly_third_quartile_weekly_payment d
      else Number (toWeekly (payment (calculateMortgage
             (js_max (Num 0) (js_sub (Num (or_zero (yearly_third_quartile_sales_000s d) * 1000)) dep))
             r t ty))))"
  by (simp add: calculateQuartilePayments_def or_zero_eq_0 Let_def)

lemma updateArea_present:
  assumes "\<not> falsy (yearly_median_sales_price_000s d)"
  shows "updateArea cfg d =
     (let salesPrice = Num (or_zero (yearly_median_sales_price_000s d) * 1000);
          deposit = actualDeposit cfg salesPrice;
          mortgage = calculateMortgage (js_max (Num 0) (js_sub salesPrice deposit))
                       (interestRate cfg) (loanTerm cfg) (mortgageType cfg)
      in calculateQuartilePayments
           (d\<lparr>calculated_weekly_payment := Number (toWeekly (payment mortgage)),
              calculated_weekly_interest := Number (toWeekly (interest mortgage)),
              rent_vs_payment_ratio :=
                rentRatio (yearly_median_weekly_rent d) (toWeekly (payment mortgage))\<rparr>)
           deposit (interestRate cfg) (loanTerm cfg) (mortgageType cfg))"
  using assms by (simp add: updateArea_def or_zero_eq_0 Let_def)

text \<open>
  Claim C6. An area whose median sale price is absent or zero is skipped by the recompute
  pass: its record is left exactly as it was, so none of its computed fields is written
  (a field that was unset stays unset, it is not set to zero), whether or not the area
  has a weekly rent.
\<close>

theorem area_without_sale_price_is_skipped:
  assumes "i < length areas"
    and "yearly_median_sales_price_000s (areas ! i) = None
         \<or> yearly_median_sales_price_000s (areas ! i) = Some 0"
  shows "updateAllRatios cfg areas ! i = areas ! i"
proof -
  from assms(2) have "falsy (yearly_median_sales_price_000s (areas ! i))"
    by (auto simp: falsy_def)
  then have "updateArea cfg (areas ! i) = areas ! i"
    by (rule updateArea_skip)
  with assms(1) show ?thesis by (simp add: updateAllRatios_def)
qed

theorem area_without_sale_price_is_skipped_witness:
  "(0::nat) < length [example_area\<lparr>yearly_median_sales_price_000s := Some 0\<rparr>]
   \<and> yearly_median_sales_price_000s
        ([example_area\<lparr>yearly_median_sales_price_000s := Some 0\<rparr>] ! 0) = Some 0
   \<and> yearly_median_weekly_rent
        ([example_area\<lparr>yearly_median_sales_price_000s := Some 0\<rparr>] ! 0) = Some 500
   \<and> updateAllRatios example_config
        [example_area\<lparr>yearly_median_sales_price_000s := Some 0\<rparr>] ! 0
      = example_area\<lparr>yearly_median_sales_price_000s := Some 0\<rparr>
   \<and> calculated_weekly_payment
        (updateAllRatios example_config
           [example_area\<lparr>yearly_median_sales_price_000s := Some 0\<rparr>] ! 0) = Undefined"
  using area_without_sale_price_is_skipped
    [of 0 "[example_area\<lparr>yearly_median_sales_price_000s := Some 0\<rparr>]" example_config]
  by (simp add: example_defs)

text \<open>Under a configuration of the specification's data model the weekly payment is a
  finite number that is not negative.\<close>

lemma mortgage_payment_nonneg:
  assumes "0 \<le> L" "0 \<le> r" "0 < t"
  shows "\<exists>p. payment (calculateMortgage (Num L) (Num r) (Num t) ty) = Num p \<and> 0 \<le> p"
proof (cases "L = 0 \<or> r = 0 \<or> ty = ''IO''")
  case True
  show ?thesis
  proof (cases "L = 0")
    case True
    then show ?thesis by (simp add: calculateMortgage_def)
  next
    case L: False
    show ?thesis
    proof (cases "r = 0")
      case True
      then show ?thesis using assms L by (simp add: calculateMortgage_def Let_def)
    next
      case False
      then have "payment (calculateMortgage (Num L) (Num r) (Num t) ty) = Num (L * (r / 100 / 12))"
        using True L assms by (simp add: calculateMortgage_def Let_def)
      moreover have "0 \<le> L * (r / 100 / 12)" using assms by simp
      ultimately show ?thesis by blast
    qed
  qed
next
  case False
  let ?m = "r / 100 / 12"
  let ?f = "(1 + ?m) powr (t * 12)"
  have m: "0 < ?m" using assms False by simp
  have f: "1 < ?f" using m assms by simp
  have "calculateMortgage (Num L) (Num r) (Num t) ty =
     \<lparr>payment = Num (L * ?m * ?f / (?f - 1)), interest = Num (L * ?m)\<rparr>"
    using principal_and_interest_finite [of L r t ty] assms False m f by simp
  moreover have "0 \<le> L * ?m * ?f / (?f - 1)"
  proof (rule divide_nonneg_pos)
    show "0 \<le> L * ?m * ?f" using assms m by (intro mult_nonneg_nonneg) simp_all
    show "0 < ?f - 1" using f by simp
  qed
  ultimately show ?thesis by simp
qed

lemma weekly_payment_nonneg:
  assumes "spec_LoanConfiguration cfg"
  shows "\<exists>w. toWeekly (payment (calculateMortgage
                 (js_max (Num 0) (js_sub (Num S) (actualDeposit cfg (Num S))))
                 (interestRate cfg) (loanTerm cfg) (mortgageType cfg))) = Num w \<and> 0 \<le> w"
proof -
  from assms obtain r t p a where c: "interestRate cfg = Num r" "loanTerm cfg = Num t"
      "depositPercent cfg = Num p" "depositAmount cfg = Num a" "0 \<le> r" "0 < t"
    by (auto simp: spec_LoanConfiguration_def split: jsnum.splits)
  define D where "D = (if depositType cfg = ''percent'' then S * (p / 100) else a)"
  have D: "actualDeposit cfg (Num S) = Num D"
    by (simp add: actualDeposit_def c D_def)
  have L: "js_max (Num 0) (js_sub (Num S) (Num D)) = Num (max 0 (S - D))"
    by (simp add: js_sub_def max_def)
  obtain q where q: "payment (calculateMortgage (Num (max 0 (S - D))) (Num r) (Num t)
      (mortgageType cfg)) = Num q" "0 \<le> q"
    using mortgage_payment_nonneg [of "max 0 (S - D)" r t "mortgageType cfg"] c by auto
  have "toWeekly (Num q) = Num (q * 12 / 52)" by (simp add: toWeekly_def)
  moreover have "0 \<le> q * 12 / 52" using q by simp
  ultimately show ?thesis unfolding D L c q by blast
qed

text \<open>
  Claim C3. For an area whose median sale price is present and not zero, the pass writes
  a weekly payment and sets the ratio by this case split: null if the rent is absent or
  zero; otherwise rent divided by the weekly payment if the weekly payment is greater
  than zero; otherwise positive infinity. Under a configuration of the specification's
  data model the last case is the case of a weekly payment of zero.
\<close>

theorem ratio_case_split:
  assumes "yearly_median_sales_price_000s d = Some price" and "price \<noteq> 0"
  shows "\<exists>weekly. calculated_weekly_payment (updateArea cfg d) = Number weekly \<and>
     rent_vs_payment_ratio (updateArea cfg d) =
       (case yearly_median_weekly_rent d of
          None \<Rightarrow> Null
        | Some v \<Rightarrow>
            if v = 0 then Null
            else if js_lt (Num 0) weekly then Number (js_div (Num v) weekly)
            else Number PosInf) \<and>
     (spec_LoanConfiguration cfg \<and> \<not> js_lt (Num 0) weekly \<longrightarrow> weekly = Num 0)"
proof -
  have p: "\<not> falsy (yearly_median_sales_price_000s d)" using assms by (simp add: falsy_def)
  let ?weekly = "toWeekly (payment (calculateMortgage
       (js_max (Num 0) (js_sub (Num (price * 1000)) (actualDeposit cfg (Num (price * 1000)))))
       (interestRate cfg) (loanTerm cfg) (mortgageType cfg)))"
  have w: "calculated_weekly_payment (updateArea cfg d) = Number ?weekly"
    unfolding updateArea_present [OF p]
    by (simp add: Let_def quartiles_keep_median_fields or_zero_def assms)
  have r: "rent_vs_payment_ratio (updateArea cfg d) =
       rentRatio (yearly_median_weekly_rent d) ?weekly"
    unfolding updateArea_present [OF p]
    by (simp add: Let_def quartiles_keep_median_fields or_zero_def assms)
  have z: "spec_LoanConfiguration cfg \<and> \<not> js_lt (Num 0) ?weekly \<longrightarrow> ?weekly = Num 0"
  proof
    assume a: "spec_LoanConfiguration cfg \<and> \<not> js_lt (Num 0) ?weekly"
    then obtain x where x: "?weekly = Num x" "0 \<le> x"
      using weekly_payment_nonneg [of cfg "price * 1000"] by blast
    with a show "?weekly = Num 0" by simp
  qed
  from w r z show ?thesis unfolding rentRatio_def by blast
qed

theorem ratio_case_split_witness:
  "yearly_median_sales_price_000s example_area = Some 800 \<and> (800::real) \<noteq> 0
   \<and> calculated_weekly_payment (updateArea example_config example_area) = Number (Num (8000 / 13))
   \<and> rent_vs_payment_ratio (updateArea example_config example_area) = Number (Num 0.8125)
   \<and> spec_LoanConfiguration (example_config\<lparr>depositPercent := Num 100\<rparr>)
   \<and> calculated_weekly_payment
        (updateArea (example_config\<lparr>depositPercent := Num 100\<rparr>) example_area) = Number (Num 0)
   \<and> rent_vs_payment_ratio
        (updateArea (example_config\<lparr>depositPercent := Num 100\<rparr>) example_area) = Number PosInf"
  using ratio_case_split [of example_area 800 example_config]
    ratio_case_split [of example_area 800 "example_config\<lparr>depositPercent := Num 100\<rparr>"]
  by (simp add: example_defs run_defs spec_LoanConfiguration_def)

text \<open>
  Claim C1, as the code computes it. For an area whose median sale price is present and
  not zero, a quartile payment whose quartile sale price is present and not zero is the
  weekly payment for the loan amount \<open>max(0, quartile price - deposit)\<close>, where the
  deposit is the one of the median computation (in the percent mode: the median sale
  price times \<open>depositPercent / 100\<close>); the first-quartile payment is null when the
  first-quartile sale price is absent or zero.
\<close>

theorem quartile_payments_use_median_deposit:
  assumes "yearly_median_sales_price_000s d = Some price" and "price \<noteq> 0"
  shows
    "(yearly_first_quartile_sales_000s d = Some q1 \<and> q1 \<noteq> 0 \<longrightarrow>
        yearly_first_quartile_weekly_payment (updateArea cfg d) =
          Number (toWeekly (payment (calculateMortgage
            (js_max (Num 0) (js_sub (Num (q1 * 1000)) (actualDeposit cfg (Num (price * 1000)))))
            (interestRate cfg) (loanTerm cfg) (mortgageType cfg)))))
     \<and> (yearly_third_quartile_sales_000s d = Some q3 \<and> q3 \<noteq> 0 \<longrightarrow>
        yearly_third_quartile_weekly_payment (updateArea cfg d) =
          Number (toWeekly (payment (calculateMortgage
            (js_max (Num 0) (js_sub (Num (q3 * 1000)) (actualDeposit cfg (Num (price * 1000)))))
            (interestRate cfg) (loanTerm cfg) (mortgageType cfg)))))
     \<and> (yearly_first_quartile_sales_000s d = None \<or> yearly_first_quartile_sales_000s d = Some 0 \<longrightarrow>
        yearly_first_quartile_weekly_payment (updateArea cfg d) = Null)
     \<and> (depositType cfg = ''percent'' \<longrightarrow>
        actualDeposit cfg (Num (price * 1000)) =
          js_mul (Num (price * 1000)) (js_div (depositPercent cfg) (Num 100)))
     \<and> (depositType cfg \<noteq> ''percent'' \<longrightarrow>
        actualDeposit cfg (Num (price * 1000)) = depositAmount cfg)"
proof -
  have p: "\<not> falsy (yearly_median_sales_price_000s d)" using assms by (simp add: falsy_def)
  show ?thesis
    unfolding updateArea_present [OF p]
    by (auto simp: Let_def quartiles_first quartiles_third or_zero_def falsy_def assms
        actualDeposit_def)
qed

theorem quartile_payments_use_median_deposit_witness:
  "yearly_median_sales_price_000s example_area = Some 800 \<and> (800::real) \<noteq> 0
   \<and> yearly_first_quartile_sales_000s example_area = Some 600 \<and> (600::real) \<noteq> 0
   \<and> yearly_third_quartile_sales_000s example_area = Some 1000 \<and> (1000::real) \<noteq> 0
   \<and> depositType example_config = ''percent''
   \<and> actualDeposit example_config (Num (800 * 1000)) = Num 160000
   \<and> yearly_first_quartile_weekly_payment (updateArea example_config example_area)
       = Number (Num (5500 / 13))
   \<and> yearly_third_quartile_weekly_payment (updateArea example_config example_area)
       = Number (Num (10500 / 13))
   \<and> yearly_first_quartile_sales_000s
        (example_area\<lparr>yearly_first_quartile_sales_000s := None\<rparr>) = None
   \<and> yearly_first_quartile_weekly_payment
        (updateArea example_config (example_area\<lparr>yearly_first_quartile_sales_000s := None\<rparr>))
       = Null"
  using quartile_payments_use_median_deposit
      [where d = example_area and price = 800 and ?q1.0 = 600 and ?q3.0 = 1000
         and cfg = example_config]
    quartile_payments_use_median_deposit
      [where d = "example_area\<lparr>yearly_first_quartile_sales_000s := None\<rparr>" and price = 800
         and ?q1.0 = 600 and ?q3.0 = 1000 and cfg = example_config]
  by (simp add: example_defs run_defs)

text \<open>
  Claim C1, as stated, derives the deposit from the quartile sale price. In the example
  the first-quartile payment of the code is \<open>(600000 - 160000) * 0.05 / 52\<close>; the claim
  gives \<open>(600000 - 120000) * 0.05 / 52\<close>.
\<close>

theorem quartile_deposit_is_not_a_share_of_the_quartile_price:
  "yearly_first_quartile_weekly_payment (updateArea example_config example_area)
     = Number (Num (5500 / 13))
   \<and> spec_quartile_payment example_config (yearly_first_quartile_sales_000s example_area)
     = Number (Num (6000 / 13))
   \<and> yearly_first_quartile_weekly_payment (updateArea example_config example_area)
     \<noteq> spec_quartile_payment example_config (yearly_first_quartile_sales_000s example_area)"
  by (simp add: example_defs run_defs spec_quartile_payment_def)

text \<open>
  Claim C2, as the code computes it. Take two records with the same raw fields. If the
  median sale price is present and not zero, then after a pass with the same
  configuration the weekly payment, the weekly interest, the ratio and the
  first-quartile payment of the two records agree, whatever their computed fields held
  before, and so does the third-quartile payment when the third-quartile sale price is
  present and not zero. If the median sale price is absent or zero the record is left as
  it was. A second pass with the same configuration changes nothing.
\<close>

theorem recompute_depends_on_raw_fields_only:
  assumes "yearly_median_sales_price_000s d1 = yearly_median_sales_price_000s d2"
    and "yearly_median_weekly_rent d1 = yearly_median_weekly_rent d2"
    and "yearly_first_quartile_sales_000s d1 = yearly_first_quartile_sales_000s d2"
    and "yearly_third_quartile_sales_000s d1 = yearly_third_quartile_sales_000s d2"
  shows
    "(\<not> falsy (yearly_median_sales_price_000s d1) \<longrightarrow>
        calculated_weekly_payment (updateArea cfg d1) = calculated_weekly_payment (updateArea cfg d2)
        \<and> calculated_weekly_interest (updateArea cfg d1) = calculated_weekly_interest (updateArea cfg d2)
        \<and> rent_vs_payment_ratio (updateArea cfg d1) = rent_vs_payment_ratio (updateArea cfg d2)
        \<and> yearly_first_quartile_weekly_payment (updateArea cfg d1)
            = yearly_first_quartile_weekly_payment (updateArea cfg d2)
        \<and> (\<not> falsy (yearly_third_quartile_sales_000s d1) \<longrightarrow>
             yearly_third_quartile_weekly_payment (updateArea cfg d1)
               = yearly_third_quartile_weekly_payment (updateArea cfg d2)))
     \<and> (falsy (yearly_median_sales_price_000s d1) \<longrightarrow> updateArea cfg d1 = d1)
     \<and> updateArea cfg (updateArea cfg d1) = updateArea cfg d1"
proof (intro conjI impI)
  assume p1: "\<not> falsy (yearly_median_sales_price_000s d1)"
  then have p2: "\<not> falsy (yearly_median_sales_price_000s d2)" using assms by simp
  show "calculated_weekly_payment (updateArea cfg d1) = calculated_weekly_payment (updateArea cfg d2)"
    unfolding updateArea_present [OF p1] updateArea_present [OF p2]
    by (simp add: Let_def quartiles_keep_median_fields assms)
  show "calculated_weekly_interest (updateArea cfg d1) = calculated_weekly_interest (updateArea cfg d2)"
    unfolding updateArea_present [OF p1] updateArea_present [OF p2]
    by (simp add: Let_def quartiles_keep_median_fields assms)
  show "rent_vs_payment_ratio (updateArea cfg d1) = rent_vs_payment_ratio (updateArea cfg d2)"
    unfolding updateArea_present [OF p1] updateArea_present [OF p2]
    by (simp add: Let_def quartiles_keep_median_fields assms)
  show "yearly_first_quartile_weekly_payment (updateArea cfg d1)
            = yearly_first_quartile_weekly_payment (updateArea cfg d2)"
    unfolding updateArea_present [OF p1] updateArea_present [OF p2]
    by (simp add: Let_def quartiles_first assms)
  assume "\<not> falsy (yearly_third_quartile_sales_000s d1)"
  then show "yearly_third_quartile_weekly_payment (updateArea cfg d1)
               = yearly_third_quartile_weekly_payment (updateArea cfg d2)"
    unfolding updateArea_present [OF p1] updateArea_present [OF p2]
    by (simp add: Let_def quartiles_third assms)
next
  assume "falsy (yearly_median_sales_price_000s d1)"
  then show "updateArea cfg d1 = d1" by (rule updateArea_skip)
next
  show "updateArea cfg (updateArea cfg d1) = updateArea cfg d1" by (rule updateArea_idem)
qed

theorem recompute_depends_on_raw_fields_only_witness:
  "\<not> falsy (yearly_median_sales_price_000s example_area_stale)
   \<and> \<not> falsy (yearly_third_quartile_sales_000s example_area_stale)
   \<and> updateArea example_config example_area_stale = updateArea example_config example_area
   \<and> calculated_weekly_payment (updateArea example_config example_area_stale)
       = Number (Num (8000 / 13))
   \<and> yearly_third_quartile_weekly_payment (updateArea example_config example_area_stale)
       = Number (Num (10500 / 13))
   \<and> falsy (yearly_median_sales_price_000s
               (example_area_stale\<lparr>yearly_median_sales_price_000s := None\<rparr>))
   \<and> updateArea example_config (example_area_stale\<lparr>yearly_median_sales_price_000s := None\<rparr>)
       = example_area_stale\<lparr>yearly_median_sales_price_000s := None\<rparr>"
  using recompute_depends_on_raw_fields_only [of example_area_stale example_area example_config]
    recompute_depends_on_raw_fields_only
      [of "example_area_stale\<lparr>yearly_median_sales_price_000s := None\<rparr>"
          "example_area\<lparr>yearly_median_sales_price_000s := None\<rparr>" example_config]
  by (simp add: example_defs example_area_stale_def run_defs falsy_def)

text \<open>
  Claim C2, as stated, has every computed field overwritten whatever it held before. An
  area without a median sale price keeps the weekly payment it held before the pass: two
  records with the same raw fields end with different computed fields.
\<close>

theorem prior_values_survive_a_skipped_area:
  "calculated_weekly_payment
     (updateArea example_config
        (example_area\<lparr>yearly_median_sales_price_000s := None,
                       calculated_weekly_payment := Number (Num 100)\<rparr>)) = Number (Num 100)
   \<and> calculated_weekly_payment
     (updateArea example_config
        (example_area\<lparr>yearly_median_sales_price_000s := None\<rparr>)) = Undefined"
  by (simp add: example_defs run_defs)


section \<open>Properties of the table\<close>

subsection \<open>The sort\<close>

text \<open>
  The sort returns a permutation of its input. If the comparator decides a transitive
  relation \<open>R\<close> (an element is moved behind another one only if \<open>R\<close> allows it, and
  is left before it only if \<open>R\<close> allows that), the result is sorted with respect to
  \<open>R\<close>.
\<close>

lemma mset_js_insert: "mset (js_insert cmp x ys) = add_mset x (mset ys)"
  by (induction ys) simp_all

lemma set_js_insert: "set (js_insert cmp x ys) = insert x (set ys)"
  by (induction ys) auto

lemma mset_js_sort: "mset (js_sort cmp xs) = mset xs"
  by (induction xs) (simp_all add: js_sort_def mset_js_insert)

lemma set_js_sort: "set (js_sort cmp xs) = set xs"
  by (metis mset_js_sort set_mset_mset)

lemma sorted_js_insert:
  assumes trans: "\<And>a b c. R a b \<Longrightarrow> R b c \<Longrightarrow> R a c"
    and behind: "\<And>y. y \<in> set ys \<Longrightarrow> js_lt (Num 0) (cmp x y) \<Longrightarrow> R y x"
    and before: "\<And>y. y \<in> set ys \<Longrightarrow> \<not> js_lt (Num 0) (cmp x y) \<Longrightarrow> R x y"
    and sorted: "sorted_wrt R ys"
  shows "sorted_wrt R (js_insert cmp x ys)"
  using behind before sorted
proof (induction ys)
  case Nil
  then show ?case by simp
next
  case (Cons y ys)
  show ?case
  proof (cases "js_lt (Num 0) (cmp x y)")
    case True
    have "R y x" using Cons.prems(1) True by simp
    moreover have "sorted_wrt R (js_insert cmp x ys)"
      using Cons by simp
    ultimately show ?thesis using True Cons.prems(3) by (auto simp: set_js_insert)
  next
    case False
    have xy: "R x y" using Cons.prems(2) False by simp
    have "R x z" if "z \<in> set ys" for z
      using xy Cons.prems(3) that trans by auto
    then show ?thesis using False xy Cons.prems(3) by auto
  qed
qed

lemma sorted_js_sort:
  assumes trans: "\<And>a b c. R a b \<Longrightarrow> R b c \<Longrightarrow> R a c"
    and behind: "\<And>x y. x \<in> set xs \<Longrightarrow> y \<in> set xs \<Longrightarrow> js_lt (Num 0) (cmp x y) \<Longrightarrow> R y x"
    and before: "\<And>x y. x \<in> set xs \<Longrightarrow> y \<in> set xs \<Longrightarrow> \<not> js_lt (Num 0) (cmp x y) \<Longrightarrow> R x y"
  shows "sorted_wrt R (js_sort cmp xs)"
  using behind before
proof (induction xs)
  case Nil
  then show ?case by (simp add: js_sort_def)
next
  case (Cons x xs)
  have s: "sorted_wrt R (js_sort cmp xs)" using Cons by simp
  have "sorted_wrt R (js_insert cmp x (js_sort cmp xs))"
  proof (rule sorted_js_insert [OF trans _ _ s])
    fix y assume "y \<in> set (js_sort cmp xs)"
    then have y: "y \<in> set xs" by (simp add: set_js_sort)
    { assume "js_lt (Num 0) (cmp x y)" then show "R y x" using Cons.prems(1) y by simp }
    { assume "\<not> js_lt (Num 0) (cmp x y)" then show "R x y" using Cons.prems(2) y by simp }
  qed
  then show ?case by (simp add: js_sort_def)
qed

lemma js_le_trans: "js_le a b \<Longrightarrow> js_le b c \<Longrightarrow> js_le a c"
  by (cases a; cases b; cases c) simp_all

lemma difference_positive: "js_lt (Num 0) (js_sub b a) \<Longrightarrow> js_le a b"
  by (cases a; cases b) (simp_all add: js_sub_def)

lemma difference_not_positive:
  "a \<noteq> NaN \<Longrightarrow> b \<noteq> NaN \<Longrightarrow> \<not> js_lt (Num 0) (js_sub b a) \<Longrightarrow> js_le b a"
  by (cases a; cases b) (simp_all add: js_sub_def)

lemma orMinusOne_NaN: "(orMinusOne v = NaN) = (v = Number NaN)"
  by (cases v) (simp_all add: orMinusOne_def)

lemma sorted_by_ratio:
  assumes "\<forall>r\<in>set rows. ratio r \<noteq> Number NaN"
  shows "sorted_wrt (\<lambda>a b. js_le (orMinusOne (ratio b)) (orMinusOne (ratio a)))
           (js_sort ratioCompare rows)"
proof (rule sorted_js_sort)
  fix a b c :: row
  assume "js_le (orMinusOne (ratio b)) (orMinusOne (ratio a))"
    and "js_le (orMinusOne (ratio c)) (orMinusOne (ratio b))"
  then show "js_le (orMinusOne (ratio c)) (orMinusOne (ratio a))"
    using js_le_trans by blast
next
  fix x y assume "js_lt (Num 0) (ratioCompare x y)"
  then show "js_le (orMinusOne (ratio x)) (orMinusOne (ratio y))"
    unfolding ratioCompare_def by (rule difference_positive)
next
  fix x y assume "x \<in> set rows" "y \<in> set rows" "\<not> js_lt (Num 0) (ratioCompare x y)"
  then show "js_le (orMinusOne (ratio y)) (orMinusOne (ratio x))"
    unfolding ratioCompare_def using assms
    by (intro difference_not_positive) (simp_all add: orMinusOne_NaN)
qed

text \<open>A ratio written by the recompute pass is never NaN.\<close>

lemma ratio_after_pass_not_NaN:
  assumes "rent_vs_payment_ratio d \<noteq> Number NaN"
  shows "rent_vs_payment_ratio (updateArea cfg d) \<noteq> Number NaN"
proof (cases "falsy (yearly_median_sales_price_000s d)")
  case True
  then show ?thesis using assms by (simp add: updateArea_skip)
next
  case False
  have "rentRatio r w \<noteq> Number NaN" for r w
    by (cases w) (simp_all add: rentRatio_def split: option.splits)
  then show ?thesis
    unfolding updateArea_present [OF False]
    by (simp add: Let_def quartiles_keep_median_fields)
qed

text \<open>
  Claim C7. After the projection is rebuilt, the rows are ordered descending by ratio,
  where a ratio that is null or unset counts as -1: for rows at positions \<open>i < j\<close> the
  key of row \<open>j\<close> is at most the key of row \<open>i\<close>; if row \<open>j\<close> has a defined,
  non-negative ratio then row \<open>i\<close> has a defined ratio (no row without a ratio precedes
  it); and if both ratios are defined, the ratio of row \<open>i\<close> is not less than that of
  row \<open>j\<close>. The rows are a permutation of the projected records, and they are the
  rows rendered. No ratio is NaN; the recompute pass never writes one.
\<close>

theorem default_order_is_descending_by_ratio:
  assumes "\<forall>d\<in>set (housingData st). rent_vs_payment_ratio d \<noteq> Number NaN"
    and "rows = sortedDataList (prepareAndRenderTable st)"
    and "i < j" and "j < length rows"
  shows "js_le (orMinusOne (ratio (rows ! j))) (orMinusOne (ratio (rows ! i)))
    \<and> (\<forall>v. ratio (rows ! j) = Number v \<and> js_le (Num 0) v \<longrightarrow> (\<exists>u. ratio (rows ! i) = Number u))
    \<and> (\<forall>u v. ratio (rows ! i) = Number u \<and> ratio (rows ! j) = Number v \<longrightarrow> \<not> js_lt u v)
    \<and> mset rows = mset (map (toRow (suburbLookup st))
                          (filter (inTable (suburbLookup st)) (housingData st)))
    \<and> tableBody (prepareAndRenderTable st) = rows"
proof -
  let ?proj = "map (toRow (suburbLookup st)) (filter (inTable (suburbLookup st)) (housingData st))"
  have rows: "rows = js_sort ratioCompare ?proj"
    using assms(2) by (simp add: prepareAndRenderTable_def Let_def)
  have "\<forall>r\<in>set ?proj. ratio r \<noteq> Number NaN"
    using assms(1) by (auto simp: toRow_def)
  then have "sorted_wrt (\<lambda>a b. js_le (orMinusOne (ratio b)) (orMinusOne (ratio a))) rows"
    unfolding rows by (rule sorted_by_ratio)
  then have le: "js_le (orMinusOne (ratio (rows ! j))) (orMinusOne (ratio (rows ! i)))"
    using assms(3,4) by (rule sorted_wrt_nth_less)
  have undef: "\<exists>u. ratio (rows ! i) = Number u"
    if "ratio (rows ! j) = Number v" "js_le (Num 0) v" for v
    using le that by (cases "ratio (rows ! i)"; cases v) (simp_all add: orMinusOne_def)
  have desc: "\<not> js_lt u v" if "ratio (rows ! i) = Number u" "ratio (rows ! j) = Number v" for u v
    using le that by (cases u; cases v) (simp_all add: orMinusOne_def)
  have m: "mset rows = mset ?proj" unfolding rows by (rule mset_js_sort)
  have t: "tableBody (prepareAndRenderTable st) = rows"
    using assms(2) by (simp add: prepareAndRenderTable_def Let_def)
  from le undef desc m t show ?thesis by blast
qed

lemmas table_defs = prepareAndRenderTable_def toRow_def inTable_def lookupSuburb_def
  rawValue_def falsy_def ratioCompare_def orMinusOne_def js_sort_def js_sub_def Let_def
  example_app_def example_area_def example_lookup_def example_headers_def

theorem default_order_is_descending_by_ratio_witness:
  "map postcode (sortedDataList (prepareAndRenderTable example_app))
     = [''2020'', ''2040'', ''2000'', ''2010'', ''2030'']
   \<and> map ratio (sortedDataList (prepareAndRenderTable example_app))
     = [Number PosInf, Number PosInf, Number (Num 0.5), Null, Undefined]
   \<and> js_le (orMinusOne (ratio (sortedDataList (prepareAndRenderTable example_app) ! 3)))
            (orMinusOne (ratio (sortedDataList (prepareAndRenderTable example_app) ! 2)))"
proof -
  have h: "\<forall>d\<in>set (housingData example_app). rent_vs_payment_ratio d \<noteq> Number NaN"
    by (simp add: example_app_def example_area_def)
  have l: "3 < length (sortedDataList (prepareAndRenderTable example_app))"
    by (simp add: table_defs)
  have "(2::nat) < 3" by simp
  from default_order_is_descending_by_ratio [OF h refl this l]
  show ?thesis by (simp add: table_defs)
qed

subsection \<open>Sorting by a column\<close>












subsection \<open>Filtering\<close>







end
